theory Spec2Isabelle
  imports Complex_Main
begin

section \<open>Data model of the auth server (module10-auth-flow)\<close>

text \<open>
  Mongoose documents are records, collections are lists in insertion order.
  An ObjectId is a natural number and a Date is the number of milliseconds
  since the epoch.
\<close>

type_synonym objectId = nat
type_synonym date = int

text \<open>
  userSchema: firstName, lastName and email (unique), all three required,
  password, and roles (default ['user']).
\<close>

record user =
  u_id :: objectId
  u_firstName :: string
  u_lastName :: string
  u_email :: string
  u_password :: string
  u_roles :: "string list"

text \<open>refreshTokenSchema: token (unique), userId, expireAt.\<close>

record refreshToken =
  rt_id :: objectId
  rt_token :: string
  rt_userId :: objectId
  rt_expireAt :: date

record db =
  users :: "user list"
  refreshTokens :: "refreshToken list"

text \<open>
  \<^verbatim>\<open>new Error(message, { cause: { status, code? } })\<close>. An error raised by the
  database driver carries no cause.
\<close>

record cause =
  c_status :: "nat option"
  c_code :: "string option"

datatype error = Error string "cause option"

definition http :: "nat \<Rightarrow> cause" where
  "http n = \<lparr>c_status = Some n, c_code = None\<rparr>"

text \<open>
  A value of \<^verbatim>\<open>req.cookies\<close>. The global middleware cookie-parser leaves a
  cookie's string there, or, for a cookie whose text starts with \<^verbatim>\<open>j:\<close>, the
  JSON value the rest of it parses to: a cookie \<^verbatim>\<open>j:{"$ne":""}\<close> arrives as the
  object \<open>JObj [(''$ne'', JStr [])]\<close>. No handler checks the type of a cookie.
\<close>

datatype jvalue =
    JStr string
  | JNum rat
  | JBool bool
  | JNull
  | JArr "jvalue list"
  | JObj "(string \<times> jvalue) list"

text \<open>
  The parts of an Express request the handlers read. The body is what the
  validation middleware of the router let through, so its fields are strings.
\<close>

record request =
  body_email :: string
  body_password :: string
  body_firstName :: string
  body_lastName :: string
  cookie_accessToken :: "jvalue option"
  cookie_refreshToken :: "jvalue option"

record cookie =
  ck_name :: string
  ck_value :: string
  ck_httpOnly :: bool
  ck_sameSite :: string
  ck_secure :: bool
  ck_maxAge :: "int option"

datatype json = Message string | MessageUser string user

record response =
  statusCode :: nat
  headers :: "(string \<times> string) list"
  cookies :: "cookie list"
  cleared :: "string list"
  body :: "json option"

definition new_response :: response where
  "new_response = \<lparr>statusCode = 200, headers = [], cookies = [], cleared = [], body = None\<rparr>"

text \<open>The values of \<^verbatim>\<open>#config\<close> and of \<^verbatim>\<open>process.env.NODE_ENV === 'production'\<close>.\<close>

record config =
  ACCESS_JWT_SECRET :: string
  ACCESS_TOKEN_TTL :: nat
  REFRESH_TOKEN_TTL :: nat
  SALT_ROUNDS :: nat
  isProduction :: bool

text \<open>
  The libraries bcrypt and jsonwebtoken are parameters of the model.
  \<^verbatim>\<open>jwt.verify\<close> returns the decoded payload or throws; of its exceptions the
  handlers only tell \<^verbatim>\<open>TokenExpiredError\<close> from the rest. \<open>cast_filter\<close> is
  Mongoose's reading of a filter value on a String path that is neither a
  string nor one of the operator objects spelled out in \<open>token_filter\<close> below:
  the condition the value puts on the path, or \<open>None\<close> when the cast throws.
\<close>

record jwtPayload =
  sub :: "objectId option"
  roles :: "string list"

datatype jwt_result = Decoded jwtPayload | TokenExpiredError | JsonWebTokenError

record lib =
  bcrypt_hash :: "string \<Rightarrow> string \<Rightarrow> string"
  bcrypt_compare :: "string \<Rightarrow> string \<Rightarrow> bool"
  jwt_sign :: "string list \<Rightarrow> string \<Rightarrow> nat \<Rightarrow> objectId \<Rightarrow> date \<Rightarrow> string"
  jwt_verify :: "jvalue \<Rightarrow> string \<Rightarrow> date \<Rightarrow> jwt_result"
  cast_filter :: "jvalue \<Rightarrow> (string \<Rightarrow> bool) option"

text \<open>
  What one handler call draws from outside the program: the clock
  (\<^verbatim>\<open>Date.now()\<close>), \<^verbatim>\<open>randomUUID()\<close>, \<^verbatim>\<open>bcrypt.genSalt\<close>, and the
  ObjectIds the driver generates for a created User and RefreshToken.
\<close>

record entropy =
  now :: date
  uuid :: string
  salt :: string
  userOid :: objectId
  tokenOid :: objectId

section \<open>Collection operations\<close>

text \<open>
  JavaScript truthiness of a cookie value: undefined, the empty string, zero,
  false and null are falsy, every other value, an object or array among them,
  is truthy.
\<close>

fun truthy :: "jvalue option \<Rightarrow> bool" where
  "truthy None = False"
| "truthy (Some (JStr s)) = (s \<noteq> [])"
| "truthy (Some (JNum n)) = (n \<noteq> 0)"
| "truthy (Some (JBool b)) = b"
| "truthy (Some JNull) = False"
| "truthy (Some (JArr vs)) = True"
| "truthy (Some (JObj kvs)) = True"

text \<open>Removes the first document that matches, as deleteOne and findByIdAndDelete do.\<close>

fun deleteFirst :: "('a \<Rightarrow> bool) \<Rightarrow> 'a list \<Rightarrow> 'a list" where
  "deleteFirst P [] = []"
| "deleteFirst P (x # xs) = (if P x then xs else x # deleteFirst P xs)"

definition duplicate_key :: error where
  "duplicate_key = Error ''E11000 duplicate key error'' None"

definition User_exists :: "string \<Rightarrow> db \<Rightarrow> bool" where
  "User_exists em d = (find (\<lambda>u. u_email u = em) (users d) \<noteq> None)"

definition User_findOne :: "string \<Rightarrow> db \<Rightarrow> user option" where
  "User_findOne em d = find (\<lambda>u. u_email u = em) (users d)"

definition User_findById :: "objectId \<Rightarrow> db \<Rightarrow> user option" where
  "User_findById i d = find (\<lambda>u. u_id u = i) (users d)"

definition validation_error :: error where
  "validation_error = Error ''User validation failed'' None"

definition cast_error :: error where
  "cast_error = Error ''Cast to string failed'' None"

text \<open>
  \<^verbatim>\<open>User.create\<close>: the schema's \<^verbatim>\<open>required\<close> validators on firstName,
  lastName and email reject a document in which one of them is the empty
  string (password carries the misspelt option \<^verbatim>\<open>require\<close>, which declares
  no validator); then the unique indexes on _id and email reject a duplicate.
\<close>

definition User_create :: "user \<Rightarrow> db \<Rightarrow> error + db" where
  "User_create doc d =
     (if u_firstName doc = [] \<or> u_lastName doc = [] \<or> u_email doc = []
      then Inl validation_error
      else if (\<exists>u \<in> set (users d). u_id u = u_id doc \<or> u_email u = u_email doc)
      then Inl duplicate_key
      else Inr (d\<lparr>users := users d @ [doc]\<rparr>))"

text \<open>
  \<^verbatim>\<open>RefreshToken.create({ token, userId })\<close>: expireAt takes its default
  \<^verbatim>\<open>new Date(Date.now() + REFRESH_TOKEN_TTL * 1000)\<close>; the unique indexes on _id
  and token reject a duplicate. The \<^verbatim>\<open>required\<close> validators of token and userId
  are always met, the token being the 36 characters of randomUUID and the
  userId the _id of a user document.
\<close>

definition issued_row :: "config \<Rightarrow> entropy \<Rightarrow> string \<Rightarrow> objectId \<Rightarrow> refreshToken" where
  "issued_row C E tok uid =
     \<lparr>rt_id = tokenOid E, rt_token = tok, rt_userId = uid,
      rt_expireAt = now E + int (REFRESH_TOKEN_TTL C) * 1000\<rparr>"

definition RefreshToken_create ::
  "config \<Rightarrow> entropy \<Rightarrow> string \<Rightarrow> objectId \<Rightarrow> db \<Rightarrow> error + db" where
  "RefreshToken_create C E tok uid d =
     (if (\<exists>r \<in> set (refreshTokens d). rt_id r = tokenOid E \<or> rt_token r = tok)
      then Inl duplicate_key
      else Inr (d\<lparr>refreshTokens := refreshTokens d @ [issued_row C E tok uid]\<rparr>))"

text \<open>
  The condition that a filter \<^verbatim>\<open>{ token: v }\<close> puts on the token of a
  document: equality for a string, the operator's meaning for the operator
  objects \<^verbatim>\<open>{ $ne: s }\<close> and \<^verbatim>\<open>{ $eq: s }\<close>, and what \<open>cast_filter\<close> says for
  every other value.
\<close>

fun token_filter :: "lib \<Rightarrow> jvalue \<Rightarrow> (string \<Rightarrow> bool) option" where
  "token_filter L (JStr s) = Some (\<lambda>t. t = s)"
| "token_filter L (JObj [(k, JStr s)]) =
     (if k = ''$ne'' then Some (\<lambda>t. t \<noteq> s)
      else if k = ''$eq'' then Some (\<lambda>t. t = s)
      else cast_filter L (JObj [(k, JStr s)]))"
| "token_filter L v = cast_filter L v"

text \<open>
  \<^verbatim>\<open>RefreshToken.findOne({ token: refreshToken })\<close> with the cookie as it came:
  the first document that meets the condition, in which expireAt has no part;
  a value that cannot be cast makes the query throw.
\<close>

definition RefreshToken_findOne :: "lib \<Rightarrow> jvalue \<Rightarrow> db \<Rightarrow> error + refreshToken option" where
  "RefreshToken_findOne L v d =
     (case token_filter L v of
        None \<Rightarrow> Inl cast_error
      | Some p \<Rightarrow> Inr (find (\<lambda>r. p (rt_token r)) (refreshTokens d)))"

definition RefreshToken_findByIdAndDelete :: "objectId \<Rightarrow> db \<Rightarrow> db" where
  "RefreshToken_findByIdAndDelete i d =
     d\<lparr>refreshTokens := deleteFirst (\<lambda>r. rt_id r = i) (refreshTokens d)\<rparr>"

definition RefreshToken_deleteOne :: "lib \<Rightarrow> jvalue \<Rightarrow> db \<Rightarrow> error + db" where
  "RefreshToken_deleteOne L v d =
     (case token_filter L v of
        None \<Rightarrow> Inl cast_error
      | Some p \<Rightarrow> Inr (d\<lparr>refreshTokens := deleteFirst (\<lambda>r. p (rt_token r)) (refreshTokens d)\<rparr>))"

definition RefreshToken_deleteMany :: "objectId \<Rightarrow> db \<Rightarrow> db" where
  "RefreshToken_deleteMany uid d =
     d\<lparr>refreshTokens := filter (\<lambda>r. rt_userId r \<noteq> uid) (refreshTokens d)\<rparr>"

text \<open>
  The TTL index \<^verbatim>\<open>index({ expireAt: 1 }, { expireAfterSeconds: 0 })\<close>: a pass
  of the database's background task removes the documents whose expireAt has
  been reached.
\<close>

definition ttl_sweep :: "date \<Rightarrow> db \<Rightarrow> db" where
  "ttl_sweep t d = d\<lparr>refreshTokens := filter (\<lambda>r. t < rt_expireAt r) (refreshTokens d)\<rparr>"

section \<open>Utilities: createTokens and setAuthCookies\<close>

definition createTokens ::
  "lib \<Rightarrow> config \<Rightarrow> entropy \<Rightarrow> user \<Rightarrow> db \<Rightarrow> db \<times> (error + string \<times> string)" where
  "createTokens L C E userData d =
     (let refreshTok = uuid E in
      case RefreshToken_create C E refreshTok (u_id userData) d of
        Inl e \<Rightarrow> (d, Inl e)
      | Inr d' \<Rightarrow>
          (d', Inr (refreshTok,
                    jwt_sign L (u_roles userData) (ACCESS_JWT_SECRET C) (ACCESS_TOKEN_TTL C)
                      (u_id userData) (now E))))"

definition cookieOptions :: "config \<Rightarrow> string \<Rightarrow> string \<Rightarrow> cookie" where
  "cookieOptions C n v =
     \<lparr>ck_name = n, ck_value = v, ck_httpOnly = True,
      ck_sameSite = (if isProduction C then ''none'' else ''lax''),
      ck_secure = isProduction C, ck_maxAge = None\<rparr>"

definition setAuthCookies :: "config \<Rightarrow> string \<Rightarrow> string \<Rightarrow> response \<Rightarrow> response" where
  "setAuthCookies C refreshTok accessTok res =
     res\<lparr>cookies := cookies res @
        [(cookieOptions C ''refreshToken'' refreshTok)
            \<lparr>ck_maxAge := Some (int (REFRESH_TOKEN_TTL C) * 1000)\<rparr>,
         cookieOptions C ''accessToken'' accessTok]\<rparr>"

definition send_json :: "nat \<Rightarrow> json \<Rightarrow> response \<Rightarrow> response" where
  "send_json st j res = res\<lparr>statusCode := st, body := Some j\<rparr>"

section \<open>Controllers\<close>

text \<open>
  A handler maps the database to the database it leaves behind and either the
  error it throws (\<open>Inl\<close>) or the response it sends (\<open>Inr\<close>).
\<close>

definition register ::
  "lib \<Rightarrow> config \<Rightarrow> entropy \<Rightarrow> request \<Rightarrow> db \<Rightarrow> db \<times> (error + response)" where
  "register L C E req d =
     (if User_exists (body_email req) d
      then (d, Inl (Error ''Email already exists'' (Some (http 409))))
      else
        let hashedPW = bcrypt_hash L (body_password req) (salt E);
            newUser = \<lparr>u_id = userOid E, u_firstName = body_firstName req,
                       u_lastName = body_lastName req, u_email = body_email req,
                       u_password = hashedPW, u_roles = [''user'']\<rparr>
        in case User_create newUser d of
             Inl e \<Rightarrow> (d, Inl e)
           | Inr d1 \<Rightarrow>
               (case createTokens L C E newUser d1 of
                  (d2, Inl e) \<Rightarrow> (d2, Inl e)
                | (d2, Inr (refreshTok, accessTok)) \<Rightarrow>
                    (d2, Inr (send_json 201 (Message ''Registered'')
                               (setAuthCookies C refreshTok accessTok new_response)))))"

definition login ::
  "lib \<Rightarrow> config \<Rightarrow> entropy \<Rightarrow> request \<Rightarrow> db \<Rightarrow> db \<times> (error + response)" where
  "login L C E req d =
     (case User_findOne (body_email req) d of
        None \<Rightarrow> (d, Inl (Error ''Incorrect credentials'' (Some (http 401))))
      | Some usr \<Rightarrow>
          if \<not> bcrypt_compare L (body_password req) (u_password usr)
          then (d, Inl (Error ''Incorrect credentials'' (Some (http 401))))
          else
            let d1 = RefreshToken_deleteMany (u_id usr) d in
            case createTokens L C E usr d1 of
              (d2, Inl e) \<Rightarrow> (d2, Inl e)
            | (d2, Inr (refreshTok, accessTok)) \<Rightarrow>
                (d2, Inr (send_json 200 (Message ''Logged in'')
                           (setAuthCookies C refreshTok accessTok new_response))))"

definition logout :: "lib \<Rightarrow> request \<Rightarrow> db \<Rightarrow> db \<times> (error + response)" where
  "logout L req d =
     (case (if truthy (cookie_refreshToken req)
            then RefreshToken_deleteOne L (the (cookie_refreshToken req)) d else Inr d) of
        Inl e \<Rightarrow> (d, Inl e)
      | Inr d1 \<Rightarrow>
          (let res = new_response\<lparr>cleared := [''refreshToken'', ''accessToken'']\<rparr>
           in (d1, Inr (res\<lparr>body := Some (Message ''Successfully logged out'')\<rparr>))))"

text \<open>
  The refresh handler acting on the response object \<open>res\<close> it is handed: the
  database it leaves behind, the response object as it leaves it, and the error
  it throws, if any.
\<close>

definition refresh_on ::
  "lib \<Rightarrow> config \<Rightarrow> entropy \<Rightarrow> request \<Rightarrow> response \<Rightarrow> db \<Rightarrow> db \<times> response \<times> error option" where
  "refresh_on L C E req res d =
     (if \<not> truthy (cookie_refreshToken req)
      then (d, res, Some (Error ''Refresh token is required.'' (Some (http 401))))
      else
        case RefreshToken_findOne L (the (cookie_refreshToken req)) d of
          Inl e \<Rightarrow> (d, res, Some e)
        | Inr None \<Rightarrow> (d, res, Some (Error ''Refresh token not found.'' (Some (http 403))))
        | Inr (Some storedToken) \<Rightarrow>
            let d1 = RefreshToken_findByIdAndDelete (rt_id storedToken) d in
            case User_findById (rt_userId storedToken) d1 of
              None \<Rightarrow> (d1, res, Some (Error ''User not found.'' (Some (http 403))))
            | Some usr \<Rightarrow>
                (case createTokens L C E usr d1 of
                   (d2, Inl e) \<Rightarrow> (d2, res, Some e)
                 | (d2, Inr (newRefreshToken, newAccessToken)) \<Rightarrow>
                     (d2, (setAuthCookies C newRefreshToken newAccessToken res)
                            \<lparr>body := Some (Message ''Refreshed'')\<rparr>, None)))"

text \<open>The refresh handler on a response object that nothing has touched yet.\<close>

definition refresh ::
  "lib \<Rightarrow> config \<Rightarrow> entropy \<Rightarrow> request \<Rightarrow> db \<Rightarrow> db \<times> (error + response)" where
  "refresh L C E req d =
     (case refresh_on L C E req new_response d of
        (d', res, Some e) \<Rightarrow> (d', Inl e)
      | (d', res, None) \<Rightarrow> (d', Inr res))"

text \<open>
  The handler \<^verbatim>\<open>me\<close>: what the try block throws is caught, and the catch
  block passes one of two errors on, by the class of what it caught.
\<close>

datatype caught = Thrown error | Expired | Invalid

definition me_try :: "lib \<Rightarrow> config \<Rightarrow> entropy \<Rightarrow> jvalue \<Rightarrow> db \<Rightarrow> caught + response" where
  "me_try L C E accessTok d =
     (case jwt_verify L accessTok (ACCESS_JWT_SECRET C) (now E) of
        TokenExpiredError \<Rightarrow> Inl Expired
      | JsonWebTokenError \<Rightarrow> Inl Invalid
      | Decoded decoded \<Rightarrow>
          (case sub decoded of
             None \<Rightarrow> Inl (Thrown (Error ''Invalid or expired access token.'' (Some (http 403))))
           | Some i \<Rightarrow>
               (case User_findById i d of
                  None \<Rightarrow> Inl (Thrown (Error ''User not found'' (Some (http 404))))
                | Some usr \<Rightarrow>
                    Inr (send_json 200 (MessageUser ''Valid token'' usr) new_response))))"

definition me ::
  "lib \<Rightarrow> config \<Rightarrow> entropy \<Rightarrow> request \<Rightarrow> db \<Rightarrow> db \<times> (error + response)" where
  "me L C E req d =
     (if \<not> truthy (cookie_accessToken req)
      then (d, Inl (Error ''Access token is required.'' (Some (http 401))))
      else
        case me_try L C E (the (cookie_accessToken req)) d of
          Inr res \<Rightarrow> (d, Inr res)
        | Inl Expired \<Rightarrow>
            (d, Inl (Error ''Expired access token''
                      (Some \<lparr>c_status = Some 401, c_code = Some ''ACCESS_TOKEN_EXPIRED''\<rparr>)))
        | Inl _ \<Rightarrow> (d, Inl (Error ''Invalid access token.'' (Some (http 401)))))"

section \<open>Error handler\<close>

text \<open>
  The errorHandler that knows expired tokens. Every value the handlers throw is
  an Error object, so only the \<^verbatim>\<open>err instanceof Error\<close> branch is modelled.
\<close>

definition errorHandler :: "error \<Rightarrow> response" where
  "errorHandler err =
     (case err of Error msg cs \<Rightarrow>
        (case cs of
           Some c \<Rightarrow>
             (let res = (if c_code c = Some ''ACCESS_TOKEN_EXPIRED''
                         then new_response\<lparr>headers :=
                                [(''WWW-Authenticate'',
                                  ''Bearer error=\"token_expired\", error_description=\"The access token expired\"'')]\<rparr>
                         else new_response)
              in send_json (case c_status c of Some n \<Rightarrow> n | None \<Rightarrow> 500) (Message msg) res)
         | None \<Rightarrow> send_json 500 (Message msg) new_response))"

text \<open>Express passes what a handler throws, or hands to next, to the error handler.\<close>

definition respond :: "error + response \<Rightarrow> response" where
  "respond out = (case out of Inl err \<Rightarrow> errorHandler err | Inr res \<Rightarrow> res)"

section \<open>The server as a sequence of events\<close>

datatype endpoint = PostRegister | PostLogin | PostRefresh | PostLogout | GetMe

fun dispatch ::
  "lib \<Rightarrow> config \<Rightarrow> endpoint \<Rightarrow> entropy \<Rightarrow> request \<Rightarrow> db \<Rightarrow> db \<times> (error + response)" where
  "dispatch L C PostRegister E req d = register L C E req d"
| "dispatch L C PostLogin E req d = login L C E req d"
| "dispatch L C PostRefresh E req d = refresh L C E req d"
| "dispatch L C PostLogout E req d = logout L req d"
| "dispatch L C GetMe E req d = me L C E req d"

text \<open>
  What happens to the database between two calls of interest: other requests,
  served one after the other, and passes of the TTL task.
\<close>

datatype event = Request endpoint entropy request | TtlPass date

fun serve :: "lib \<Rightarrow> config \<Rightarrow> event list \<Rightarrow> db \<Rightarrow> db" where
  "serve L C [] d = d"
| "serve L C (Request ep E req # evs) d = serve L C evs (fst (dispatch L C ep E req d))"
| "serve L C (TtlPass t # evs) d = serve L C evs (ttl_sweep t d)"


text \<open>What the unique indexes of the RefreshToken collection maintain.\<close>

definition unique_indexes :: "db \<Rightarrow> bool" where
  "unique_indexes d =
     (distinct (map rt_id (refreshTokens d)) \<and> distinct (map rt_token (refreshTokens d)))"

text \<open>The RefreshToken documents of one user.\<close>

definition tokens_of :: "objectId \<Rightarrow> db \<Rightarrow> refreshToken list" where
  "tokens_of uid d = filter (\<lambda>r. rt_userId r = uid) (refreshTokens d)"

text \<open>The response carries the WWW-Authenticate header.\<close>

definition expired_marker :: "response \<Rightarrow> bool" where
  "expired_marker res = (map_of (headers res) ''WWW-Authenticate'' \<noteq> None)"

section \<open>The refresh handler, one awaited operation at a time\<close>

text \<open>
  Between two awaits a handler runs alone; at an await another request may
  run. A task records where the handler stands: before the findOne, before the
  findByIdAndDelete, before the findById, before the create of createTokens,
  or finished.
\<close>

datatype refresh_task =
    AtFindOne request
  | AtDelete refreshToken
  | AtFindUser refreshToken
  | AtCreate user
  | Finished "error + response"

fun refresh_step ::
  "lib \<Rightarrow> config \<Rightarrow> entropy \<Rightarrow> refresh_task \<Rightarrow> db \<Rightarrow> refresh_task \<times> db" where
  "refresh_step L C E (AtFindOne req) d =
     (if \<not> truthy (cookie_refreshToken req)
      then (Finished (Inl (Error ''Refresh token is required.'' (Some (http 401)))), d)
      else case RefreshToken_findOne L (the (cookie_refreshToken req)) d of
             Inl e \<Rightarrow> (Finished (Inl e), d)
           | Inr None \<Rightarrow> (Finished (Inl (Error ''Refresh token not found.'' (Some (http 403)))), d)
           | Inr (Some storedToken) \<Rightarrow> (AtDelete storedToken, d))"
| "refresh_step L C E (AtDelete storedToken) d =
     (AtFindUser storedToken, RefreshToken_findByIdAndDelete (rt_id storedToken) d)"
| "refresh_step L C E (AtFindUser storedToken) d =
     (case User_findById (rt_userId storedToken) d of
        None \<Rightarrow> (Finished (Inl (Error ''User not found.'' (Some (http 403)))), d)
      | Some usr \<Rightarrow> (AtCreate usr, d))"
| "refresh_step L C E (AtCreate usr) d =
     (case createTokens L C E usr d of
        (d2, Inl e) \<Rightarrow> (Finished (Inl e), d2)
      | (d2, Inr (newRefreshToken, newAccessToken)) \<Rightarrow>
          (Finished (Inr ((setAuthCookies C newRefreshToken newAccessToken new_response)
                           \<lparr>body := Some (Message ''Refreshed'')\<rparr>)), d2))"
| "refresh_step L C E (Finished out) d = (Finished out, d)"

text \<open>
  Two refresh calls under a schedule: \<open>True\<close> lets the first call run to its
  next await, \<open>False\<close> the second.
\<close>

fun interleave ::
  "lib \<Rightarrow> config \<Rightarrow> entropy \<Rightarrow> entropy \<Rightarrow> bool list \<Rightarrow>
   refresh_task \<times> refresh_task \<times> db \<Rightarrow> refresh_task \<times> refresh_task \<times> db" where
  "interleave L C E1 E2 [] s = s"
| "interleave L C E1 E2 (b # bs) (t1, t2, d) =
     (if b
      then (case refresh_step L C E1 t1 d of (t1', d') \<Rightarrow> interleave L C E1 E2 bs (t1', t2, d'))
      else (case refresh_step L C E2 t2 d of (t2', d') \<Rightarrow> interleave L C E1 E2 bs (t1, t2', d')))"




section \<open>The module11 variant: signUp and signIn\<close>

text \<open>
  The User model of this variant is the one of User.js without location and
  myPond, which the lesson plan removes: firstName, lastName, email (unique)
  and password, all required, password with \<^verbatim>\<open>select: false\<close>, and the two
  timestamps. Its errors carry a number as cause.
\<close>

record user11 =
  v_id :: objectId
  v_firstName :: string
  v_lastName :: string
  v_email :: string
  v_password :: string
  v_createdAt :: date
  v_updatedAt :: date

datatype error11 = Error11 string "nat option"

record request11 =
  sb_firstName :: string
  sb_lastName :: string
  sb_email :: string
  sb_password :: string

text \<open>
  The paths of a document with their values, which is what \<^verbatim>\<open>res.json\<close> sends
  of it (the version key that Mongoose keeps for itself is left out).
\<close>

definition toObject :: "user11 \<Rightarrow> (string \<times> jvalue) list" where
  "toObject u =
     [(''_id'', JNum (of_nat (v_id u))),
      (''firstName'', JStr (v_firstName u)),
      (''lastName'', JStr (v_lastName u)),
      (''email'', JStr (v_email u)),
      (''password'', JStr (v_password u)),
      (''createdAt'', JNum (of_int (v_createdAt u))),
      (''updatedAt'', JNum (of_int (v_updatedAt u)))]"

text \<open>The paths that userSchema declares with \<^verbatim>\<open>select: false\<close>.\<close>

definition unselected :: "string list" where
  "unselected = [''password'']"

text \<open>
  The document a query hands back for a stored one: the paths not declared
  \<^verbatim>\<open>select: false\<close>, and those the query asks for with \<^verbatim>\<open>select('+path')\<close>.
\<close>

definition query_result :: "string list \<Rightarrow> user11 \<Rightarrow> (string \<times> jvalue) list" where
  "query_result asked u =
     filter (\<lambda>kv. fst kv \<notin> set unselected \<or> fst kv \<in> set asked) (toObject u)"

datatype body11 = UserBody "(string \<times> jvalue) list" | MessageBody string

record response11 =
  status11 :: nat
  cookies11 :: "(string \<times> string) list"
  body11 :: "body11 option"

text \<open>
  \<^verbatim>\<open>User.create\<close>: the \<^verbatim>\<open>required\<close> validators reject an empty string, the
  unique indexes a duplicate; what it returns is the document it has stored,
  which no projection has touched.
\<close>

definition User11_create :: "user11 \<Rightarrow> user11 list \<Rightarrow> error11 + user11 list \<times> user11" where
  "User11_create doc d =
     (if v_firstName doc = [] \<or> v_lastName doc = [] \<or> v_email doc = [] \<or> v_password doc = []
      then Inl (Error11 ''User validation failed'' None)
      else if (\<exists>u \<in> set d. v_id u = v_id doc \<or> v_email u = v_email doc)
      then Inl (Error11 ''E11000 duplicate key error'' None)
      else Inr (d @ [doc], doc))"

text \<open>
  signUp. \<^verbatim>\<open>User.findOne({ email })\<close> is a query and hands back the found
  user without the password; \<^verbatim>\<open>bcrypt.hash(password, 10)\<close> draws its salt
  itself, and \<open>salt E\<close> is that salt; \<^verbatim>\<open>res.json(user)\<close> sends the document
  that create returned.
\<close>

definition signUp ::
  "lib \<Rightarrow> entropy \<Rightarrow> request11 \<Rightarrow> user11 list \<Rightarrow> user11 list \<times> (error11 + response11)" where
  "signUp L E req d =
     (case map_option (query_result []) (find (\<lambda>u. v_email u = sb_email req) d) of
        Some found \<Rightarrow> (d, Inl (Error11 ''Email already exists'' (Some 400)))
      | None \<Rightarrow>
          let hashedPassword = bcrypt_hash L (sb_password req) (salt E);
              doc = \<lparr>v_id = userOid E, v_firstName = sb_firstName req,
                     v_lastName = sb_lastName req, v_email = sb_email req,
                     v_password = hashedPassword, v_createdAt = now E, v_updatedAt = now E\<rparr>
          in case User11_create doc d of
               Inl e \<Rightarrow> (d, Inl e)
             | Inr (d', usr) \<Rightarrow>
                 (d', Inr \<lparr>status11 = 200, cookies11 = [],
                           body11 = Some (UserBody (toObject usr))\<rparr>))"

text \<open>
  signIn as the lesson plan builds it; \<open>sign\<close> stands for
  \<^verbatim>\<open>jwt.sign({ userId }, process.env.JWT_SECRET, { expiresIn: '6d' })\<close>.
\<close>

definition signIn ::
  "lib \<Rightarrow> (objectId \<Rightarrow> string) \<Rightarrow> request11 \<Rightarrow> user11 list \<Rightarrow> error11 + response11" where
  "signIn L sign req d =
     (case find (\<lambda>u. v_email u = sb_email req) d of
        None \<Rightarrow> Inl (Error11 ''User not found'' (Some 404))
      | Some usr \<Rightarrow>
          if \<not> bcrypt_compare L (sb_password req) (v_password usr)
          then Inl (Error11 ''Invalid email or password'' (Some 401))
          else Inr \<lparr>status11 = 201, cookies11 = [(''token'', sign (v_id usr))],
                    body11 = Some (MessageBody ''Welcome back'')\<rparr>)"

section \<open>Concrete inputs\<close>

definition demo_lib :: lib where
  "demo_lib =
     \<lparr>bcrypt_hash = (\<lambda>pw s. s @ pw),
      bcrypt_compare = (\<lambda>pw h. h = ''$2b$'' @ pw),
      jwt_sign = (\<lambda>rs secret ttl subj t. ''signed''),
      jwt_verify = (\<lambda>tok secret t.
         if tok = JStr ''signed'' then Decoded \<lparr>sub = Some 1, roles = [''user'']\<rparr>
         else if tok = JStr ''old'' then TokenExpiredError else JsonWebTokenError),
      cast_filter = (\<lambda>v. None)\<rparr>"

definition demo_config :: config where
  "demo_config =
     \<lparr>ACCESS_JWT_SECRET = ''secret'', ACCESS_TOKEN_TTL = 900, REFRESH_TOKEN_TTL = 604800,
      SALT_ROUNDS = 13, isProduction = False\<rparr>"

definition ada :: user where
  "ada = \<lparr>u_id = 1, u_firstName = ''Ada'', u_lastName = ''Lovelace'', u_email = ''ada@x.org'',
          u_password = ''$2b$pw'', u_roles = [''user'']\<rparr>"

definition ada_row :: refreshToken where
  "ada_row = \<lparr>rt_id = 10, rt_token = ''r1'', rt_userId = 1, rt_expireAt = 5000\<rparr>"

definition demo_db :: db where
  "demo_db = \<lparr>users = [ada], refreshTokens = [ada_row]\<rparr>"

definition draw :: "date \<Rightarrow> string \<Rightarrow> objectId \<Rightarrow> objectId \<Rightarrow> entropy" where
  "draw t u uo ro = \<lparr>now = t, uuid = u, salt = ''$2b$'', userOid = uo, tokenOid = ro\<rparr>"

definition request_with ::
  "string \<Rightarrow> string \<Rightarrow> string option \<Rightarrow> string option \<Rightarrow> request" where
  "request_with em pw rtok atok =
     \<lparr>body_email = em, body_password = pw, body_firstName = ''Grace'', body_lastName = ''Hopper'',
      cookie_accessToken = map_option JStr atok, cookie_refreshToken = map_option JStr rtok\<rparr>"

definition ada11 :: user11 where
  "ada11 = \<lparr>v_id = 1, v_firstName = ''Ada'', v_lastName = ''Lovelace'', v_email = ''ada@x.org'',
            v_password = ''$2b$pw'', v_createdAt = 0, v_updatedAt = 0\<rparr>"

definition request11_with :: "string \<Rightarrow> string \<Rightarrow> request11" where
  "request11_with em pw =
     \<lparr>sb_firstName = ''Grace'', sb_lastName = ''Hopper'', sb_email = em, sb_password = pw\<rparr>"


section \<open>Basic facts\<close>

lemma in_set_deleteFirst: "x \<in> set (deleteFirst P xs) \<Longrightarrow> x \<in> set xs"
  by (induction xs) (auto split: if_splits)


lemma statusCode_errorHandler_http:
  "statusCode (errorHandler (Error m (Some (http n)))) = n"
  by (simp add: errorHandler_def http_def send_json_def new_response_def)

lemma statusCode_errorHandler_no_cause:
  "statusCode (errorHandler (Error m None)) = 500"
  by (simp add: errorHandler_def send_json_def new_response_def)


lemma findById_after_delete:
  "User_findById i (RefreshToken_findByIdAndDelete j d) = User_findById i d"
  by (simp add: User_findById_def RefreshToken_findByIdAndDelete_def)

text \<open>The refresh handler on a fresh response object, written out.\<close>

lemma refresh_unfold:
  "refresh L C E req d =
     (if \<not> truthy (cookie_refreshToken req)
      then (d, Inl (Error ''Refresh token is required.'' (Some (http 401))))
      else
        case RefreshToken_findOne L (the (cookie_refreshToken req)) d of
          Inl e \<Rightarrow> (d, Inl e)
        | Inr None \<Rightarrow> (d, Inl (Error ''Refresh token not found.'' (Some (http 403))))
        | Inr (Some storedToken) \<Rightarrow>
            let d1 = RefreshToken_findByIdAndDelete (rt_id storedToken) d in
            case User_findById (rt_userId storedToken) d1 of
              None \<Rightarrow> (d1, Inl (Error ''User not found.'' (Some (http 403))))
            | Some usr \<Rightarrow>
                (case createTokens L C E usr d1 of
                   (d2, Inl e) \<Rightarrow> (d2, Inl e)
                 | (d2, Inr (newRefreshToken, newAccessToken)) \<Rightarrow>
                     (d2, Inr ((setAuthCookies C newRefreshToken newAccessToken new_response)
                                \<lparr>body := Some (Message ''Refreshed'')\<rparr>))))"
  by (simp add: refresh_def refresh_on_def Let_def split: sum.splits option.splits prod.splits)


lemma findOne_in_set:
  "RefreshToken_findOne L v d = Inr (Some r) \<Longrightarrow> r \<in> set (refreshTokens d)"
  by (auto simp: RefreshToken_findOne_def find_Some_iff split: option.splits)




section \<open>Failure kinds of the refresh handler\<close>



section \<open>The expired marker\<close>

lemma me_marker_iff:
  "expired_marker (respond (snd (me L C E req d))) \<longleftrightarrow>
     truthy (cookie_accessToken req) \<and>
     jwt_verify L (the (cookie_accessToken req)) (ACCESS_JWT_SECRET C) (now E) = TokenExpiredError"
  by (auto simp: me_def me_try_def respond_def expired_marker_def errorHandler_def http_def
       send_json_def new_response_def Let_def
       split: jwt_result.splits option.splits sum.splits caught.splits)

lemma me_expired:
  "truthy (cookie_accessToken req) \<Longrightarrow>
   jwt_verify L (the (cookie_accessToken req)) (ACCESS_JWT_SECRET C) (now E) = TokenExpiredError \<Longrightarrow>
   me L C E req d = (d, Inl (Error ''Expired access token''
                      (Some \<lparr>c_status = Some 401, c_code = Some ''ACCESS_TOKEN_EXPIRED''\<rparr>)))"
  by (simp add: me_def me_try_def)

lemma me_invalid:
  "truthy (cookie_accessToken req) \<Longrightarrow>
   jwt_verify L (the (cookie_accessToken req)) (ACCESS_JWT_SECRET C) (now E) = JsonWebTokenError \<Longrightarrow>
   me L C E req d = (d, Inl (Error ''Invalid access token.'' (Some (http 401))))"
  by (simp add: me_def me_try_def)

text \<open>
  Claim C6. The response of \<^verbatim>\<open>me\<close>, sent through the error handler, carries
  the WWW-Authenticate header exactly when an access token is present and
  jwt.verify rejects it as expired. In that case the status is 401, the header
  says token_expired and the message is "Expired access token"; a token
  rejected for any other reason gets status 401, the message "Invalid access
  token." and no header.
\<close>

theorem expired_access_token_marker:
  "(expired_marker (respond (snd (me L C E req d))) \<longleftrightarrow>
      truthy (cookie_accessToken req) \<and>
      jwt_verify L (the (cookie_accessToken req)) (ACCESS_JWT_SECRET C) (now E) = TokenExpiredError)
   \<and> (truthy (cookie_accessToken req) \<and>
      jwt_verify L (the (cookie_accessToken req)) (ACCESS_JWT_SECRET C) (now E) = TokenExpiredError \<longrightarrow>
        statusCode (respond (snd (me L C E req d))) = 401 \<and>
        map_of (headers (respond (snd (me L C E req d)))) ''WWW-Authenticate'' =
          Some ''Bearer error=\"token_expired\", error_description=\"The access token expired\"'' \<and>
        body (respond (snd (me L C E req d))) = Some (Message ''Expired access token''))
   \<and> (truthy (cookie_accessToken req) \<and>
      jwt_verify L (the (cookie_accessToken req)) (ACCESS_JWT_SECRET C) (now E) = JsonWebTokenError \<longrightarrow>
        statusCode (respond (snd (me L C E req d))) = 401 \<and>
        headers (respond (snd (me L C E req d))) = [] \<and>
        body (respond (snd (me L C E req d))) = Some (Message ''Invalid access token.''))"
proof (intro conjI impI)
  show "expired_marker (respond (snd (me L C E req d))) \<longleftrightarrow>
      truthy (cookie_accessToken req) \<and>
      jwt_verify L (the (cookie_accessToken req)) (ACCESS_JWT_SECRET C) (now E) = TokenExpiredError"
    by (rule me_marker_iff)
next
  assume a: "truthy (cookie_accessToken req) \<and>
      jwt_verify L (the (cookie_accessToken req)) (ACCESS_JWT_SECRET C) (now E) = TokenExpiredError"
  then have m: "me L C E req d = (d, Inl (Error ''Expired access token''
                      (Some \<lparr>c_status = Some 401, c_code = Some ''ACCESS_TOKEN_EXPIRED''\<rparr>)))"
    by (simp add: me_expired)
  show "statusCode (respond (snd (me L C E req d))) = 401"
    by (simp add: m respond_def errorHandler_def send_json_def new_response_def)
  show "map_of (headers (respond (snd (me L C E req d)))) ''WWW-Authenticate'' =
          Some ''Bearer error=\"token_expired\", error_description=\"The access token expired\"''"
    by (simp add: m respond_def errorHandler_def send_json_def new_response_def)
  show "body (respond (snd (me L C E req d))) = Some (Message ''Expired access token'')"
    by (simp add: m respond_def errorHandler_def send_json_def new_response_def)
next
  assume a: "truthy (cookie_accessToken req) \<and>
      jwt_verify L (the (cookie_accessToken req)) (ACCESS_JWT_SECRET C) (now E) = JsonWebTokenError"
  then have m: "me L C E req d = (d, Inl (Error ''Invalid access token.'' (Some (http 401))))"
    by (simp add: me_invalid)
  show "statusCode (respond (snd (me L C E req d))) = 401"
    by (simp add: m respond_def errorHandler_def send_json_def new_response_def http_def)
  show "headers (respond (snd (me L C E req d))) = []"
    by (simp add: m respond_def errorHandler_def send_json_def new_response_def http_def)
  show "body (respond (snd (me L C E req d))) = Some (Message ''Invalid access token.'')"
    by (simp add: m respond_def errorHandler_def send_json_def new_response_def http_def)
qed

theorem expired_access_token_marker_witness:
  "expired_marker (respond (snd (me demo_lib demo_config (draw 0 ''r2'' 2 11)
       (request_with [] [] None (Some ''old'')) demo_db)))
   \<and> statusCode (respond (snd (me demo_lib demo_config (draw 0 ''r2'' 2 11)
       (request_with [] [] None (Some ''old'')) demo_db))) = 401
   \<and> headers (respond (snd (me demo_lib demo_config (draw 0 ''r2'' 2 11)
       (request_with [] [] None (Some ''forged'')) demo_db))) = []"
proof -
  let ?E = "draw 0 ''r2'' 2 11"
  have old: "truthy (cookie_accessToken (request_with [] [] None (Some ''old''))) \<and>
      jwt_verify demo_lib (the (cookie_accessToken (request_with [] [] None (Some ''old''))))
        (ACCESS_JWT_SECRET demo_config) (now ?E) = TokenExpiredError"
    by (simp add: request_with_def demo_lib_def)
  have forged: "truthy (cookie_accessToken (request_with [] [] None (Some ''forged''))) \<and>
      jwt_verify demo_lib (the (cookie_accessToken (request_with [] [] None (Some ''forged''))))
        (ACCESS_JWT_SECRET demo_config) (now ?E) = JsonWebTokenError"
    by (simp add: request_with_def demo_lib_def)
  from expired_access_token_marker [of demo_lib demo_config ?E "request_with [] [] None (Some ''old'')" demo_db] old
  have 1: "expired_marker (respond (snd (me demo_lib demo_config ?E (request_with [] [] None (Some ''old'')) demo_db)))"
    and 2: "statusCode (respond (snd (me demo_lib demo_config ?E (request_with [] [] None (Some ''old'')) demo_db))) = 401"
    by blast+
  from expired_access_token_marker [of demo_lib demo_config ?E "request_with [] [] None (Some ''forged'')" demo_db] forged
  have 3: "headers (respond (snd (me demo_lib demo_config ?E (request_with [] [] None (Some ''forged'')) demo_db))) = []"
    by blast
  from 1 2 3 show ?thesis by blast
qed

section \<open>Looking a token up by a string\<close>

lemma find_append_None:
  "find P xs = None \<Longrightarrow> find P (xs @ ys) = find P ys"
  by (induction xs) (auto split: if_splits)

lemma findOne_JStr:
  "RefreshToken_findOne L (JStr v) d = Inr (find (\<lambda>r. rt_token r = v) (refreshTokens d))"
  by (simp add: RefreshToken_findOne_def)

lemma findOne_SomeD:
  "RefreshToken_findOne L (JStr v) d = Inr (Some r) \<Longrightarrow> r \<in> set (refreshTokens d) \<and> rt_token r = v"
  by (auto simp: findOne_JStr find_Some_iff)

lemma findOne_None_iff:
  "RefreshToken_findOne L (JStr v) d = Inr None \<longleftrightarrow> v \<notin> rt_token ` set (refreshTokens d)"
  by (auto simp: findOne_JStr find_None_iff)

lemma findOne_first:
  assumes "\<forall>x \<in> set xs. rt_token x \<noteq> rt_token r"
  shows "RefreshToken_findOne L (JStr (rt_token r)) (d\<lparr>refreshTokens := xs @ [r]\<rparr>) = Inr (Some r)"
  using assms by (induction xs) (simp_all add: findOne_JStr)

lemma createTokens_fresh:
  assumes "\<forall>r \<in> set (refreshTokens d). rt_token r \<noteq> uuid E \<and> rt_id r \<noteq> tokenOid E"
  shows "createTokens L C E u d =
           (d\<lparr>refreshTokens := refreshTokens d @ [issued_row C E (uuid E) (u_id u)]\<rparr>,
            Inr (uuid E, jwt_sign L (u_roles u) (ACCESS_JWT_SECRET C) (ACCESS_TOKEN_TTL C)
                           (u_id u) (now E)))"
  using assms by (auto simp: createTokens_def RefreshToken_create_def Let_def)


lemma issued_row_simps:
  "rt_id (issued_row C E tok uid) = tokenOid E"
  "rt_token (issued_row C E tok uid) = tok"
  "rt_userId (issued_row C E tok uid) = uid"
  by (simp_all add: issued_row_def)

lemma refresh_found:
  assumes "v \<noteq> []" and "cookie_refreshToken req = Some (JStr v)"
      and "RefreshToken_findOne L (JStr v) d = Inr (Some r)"
      and "User_findById (rt_userId r) d = Some u"
      and "\<forall>x \<in> set (refreshTokens d). rt_token x \<noteq> uuid E \<and> rt_id x \<noteq> tokenOid E"
  shows "refresh L C E req d =
           ((RefreshToken_findByIdAndDelete (rt_id r) d)
              \<lparr>refreshTokens := refreshTokens (RefreshToken_findByIdAndDelete (rt_id r) d) @
                                  [issued_row C E (uuid E) (u_id u)]\<rparr>,
            Inr ((setAuthCookies C (uuid E)
                    (jwt_sign L (u_roles u) (ACCESS_JWT_SECRET C) (ACCESS_TOKEN_TTL C) (u_id u) (now E))
                    new_response)\<lparr>body := Some (Message ''Refreshed'')\<rparr>))"
proof -
  let ?d1 = "RefreshToken_findByIdAndDelete (rt_id r) d"
  have fresh: "\<forall>x \<in> set (refreshTokens ?d1). rt_token x \<noteq> uuid E \<and> rt_id x \<noteq> tokenOid E"
    using assms(5) by (auto simp: RefreshToken_findByIdAndDelete_def dest: in_set_deleteFirst)
  have usr: "User_findById (rt_userId r) ?d1 = Some u"
    using assms(4) by (simp add: findById_after_delete)
  show ?thesis
    by (simp add: refresh_unfold Let_def assms(1,2,3) usr createTokens_fresh [OF fresh])
qed

lemma refresh_absent:
  assumes "v \<noteq> []" and "cookie_refreshToken req = Some (JStr v)"
      and "v \<notin> rt_token ` set (refreshTokens d)"
  shows "refresh L C E req d = (d, Inl (Error ''Refresh token not found.'' (Some (http 403))))"
proof -
  from assms(3) have "RefreshToken_findOne L (JStr v) d = Inr None"
    by (simp add: findOne_None_iff)
  with assms(1,2) show ?thesis
    by (simp add: refresh_unfold)
qed

section \<open>Issuing a session\<close>

text \<open>
  Claim C8. When a user with the email of the request is stored, register throws
  the error "Email already exists" with status 409 and leaves the database, the
  users among it, as it was.
\<close>

theorem register_conflict:
  assumes "u \<in> set (users d)" and "u_email u = body_email req"
  shows "register L C E req d = (d, Inl (Error ''Email already exists'' (Some (http 409))))
         \<and> statusCode (respond (snd (register L C E req d))) = 409
         \<and> users (fst (register L C E req d)) = users d"
proof -
  have "User_exists (body_email req) d"
    using assms by (auto simp: User_exists_def find_None_iff)
  then have r: "register L C E req d = (d, Inl (Error ''Email already exists'' (Some (http 409))))"
    by (simp add: register_def)
  then show ?thesis
    by (simp add: respond_def statusCode_errorHandler_http)
qed

theorem register_conflict_witness:
  "register demo_lib demo_config (draw 0 ''r2'' 2 11) (request_with ''ada@x.org'' ''pw2'' None None) demo_db
     = (demo_db, Inl (Error ''Email already exists'' (Some (http 409))))
   \<and> statusCode (respond (snd (register demo_lib demo_config (draw 0 ''r2'' 2 11)
        (request_with ''ada@x.org'' ''pw2'' None None) demo_db))) = 409
   \<and> users (fst (register demo_lib demo_config (draw 0 ''r2'' 2 11)
        (request_with ''ada@x.org'' ''pw2'' None None) demo_db)) = [ada]"
proof -
  have 1: "ada \<in> set (users demo_db)" by (simp add: demo_db_def)
  have 2: "u_email ada = body_email (request_with ''ada@x.org'' ''pw2'' None None)"
    by (simp add: ada_def request_with_def)
  have 3: "users demo_db = [ada]" by (simp add: demo_db_def)
  show ?thesis
    by (rule register_conflict [OF 1 2, unfolded 3])
qed

text \<open>
  Claim C9. Take a valid registration: first name, last name and email are
  not empty, no stored user has the email, and what randomUUID and the driver
  draw is not empty and not in use. Then register answers 201 and stores the
  new user with the hashed password and the role user. It appends exactly one
  RefreshToken document: its token is the drawn UUID, its user the new user,
  its expiry the clock plus the refresh TTL; it is the only document of the new
  user. The response sets the cookie refreshToken to that token, with the
  refresh TTL as maxAge, and the cookie accessToken to the signed access token.
  The session is usable: findOne finds the new document by the cookie's value,
  and a refresh call that presents it is answered 200.
\<close>

theorem register_issues_session:
  assumes "body_firstName req \<noteq> []" and "body_lastName req \<noteq> []" and "body_email req \<noteq> []"
      and "uuid E \<noteq> []"
      and "\<forall>u \<in> set (users d). u_email u \<noteq> body_email req \<and> u_id u \<noteq> userOid E"
      and "\<forall>r \<in> set (refreshTokens d).
             rt_token r \<noteq> uuid E \<and> rt_id r \<noteq> tokenOid E \<and> rt_userId r \<noteq> userOid E"
  shows "\<exists>d' res. register L C E req d = (d', Inr res)
           \<and> statusCode res = 201 \<and> body res = Some (Message ''Registered'')
           \<and> users d' = users d @
               [\<lparr>u_id = userOid E, u_firstName = body_firstName req,
                 u_lastName = body_lastName req, u_email = body_email req,
                 u_password = bcrypt_hash L (body_password req) (salt E), u_roles = [''user'']\<rparr>]
           \<and> refreshTokens d' = refreshTokens d @
               [\<lparr>rt_id = tokenOid E, rt_token = uuid E, rt_userId = userOid E,
                 rt_expireAt = now E + int (REFRESH_TOKEN_TTL C) * 1000\<rparr>]
           \<and> tokens_of (userOid E) d' =
               [\<lparr>rt_id = tokenOid E, rt_token = uuid E, rt_userId = userOid E,
                 rt_expireAt = now E + int (REFRESH_TOKEN_TTL C) * 1000\<rparr>]
           \<and> cookies res =
               [\<lparr>ck_name = ''refreshToken'', ck_value = uuid E, ck_httpOnly = True,
                 ck_sameSite = (if isProduction C then ''none'' else ''lax''),
                 ck_secure = isProduction C,
                 ck_maxAge = Some (int (REFRESH_TOKEN_TTL C) * 1000)\<rparr>,
                \<lparr>ck_name = ''accessToken'',
                 ck_value = jwt_sign L [''user''] (ACCESS_JWT_SECRET C) (ACCESS_TOKEN_TTL C)
                              (userOid E) (now E),
                 ck_httpOnly = True,
                 ck_sameSite = (if isProduction C then ''none'' else ''lax''),
                 ck_secure = isProduction C, ck_maxAge = None\<rparr>]
           \<and> RefreshToken_findOne L (JStr (uuid E)) d' =
               Inr (Some \<lparr>rt_id = tokenOid E, rt_token = uuid E, rt_userId = userOid E,
                           rt_expireAt = now E + int (REFRESH_TOKEN_TTL C) * 1000\<rparr>)
           \<and> (\<forall>E' req'. cookie_refreshToken req' = Some (JStr (uuid E)) \<and>
                 (\<forall>x \<in> set (refreshTokens d'). rt_token x \<noteq> uuid E' \<and> rt_id x \<noteq> tokenOid E') \<longrightarrow>
                 (\<exists>d'' res'. refresh L C E' req' d' = (d'', Inr res') \<and> statusCode res' = 200))"
proof -
  let ?u = "\<lparr>u_id = userOid E, u_firstName = body_firstName req,
             u_lastName = body_lastName req, u_email = body_email req,
             u_password = bcrypt_hash L (body_password req) (salt E), u_roles = [''user'']\<rparr>"
  let ?row = "\<lparr>rt_id = tokenOid E, rt_token = uuid E, rt_userId = userOid E,
               rt_expireAt = now E + int (REFRESH_TOKEN_TTL C) * 1000\<rparr>"
  let ?d1 = "d\<lparr>users := users d @ [?u]\<rparr>"
  let ?d2 = "?d1\<lparr>refreshTokens := refreshTokens d @ [?row]\<rparr>"
  let ?res = "send_json 201 (Message ''Registered'')
                (setAuthCookies C (uuid E)
                   (jwt_sign L [''user''] (ACCESS_JWT_SECRET C) (ACCESS_TOKEN_TTL C) (userOid E) (now E))
                   new_response)"
  have ne: "\<not> User_exists (body_email req) d"
    using assms(5) by (auto simp: User_exists_def find_None_iff)
  have cr: "User_create ?u d = Inr ?d1"
    using assms(1,2,3,5) by (auto simp: User_create_def)
  have fresh: "\<forall>r \<in> set (refreshTokens ?d1). rt_token r \<noteq> uuid E \<and> rt_id r \<noteq> tokenOid E"
    using assms(6) by simp
  have row: "issued_row C E (uuid E) (userOid E) = ?row"
    by (simp add: issued_row_def)
  have ct: "createTokens L C E ?u ?d1 =
           (?d2, Inr (uuid E, jwt_sign L [''user''] (ACCESS_JWT_SECRET C) (ACCESS_TOKEN_TTL C)
                           (userOid E) (now E)))"
    using createTokens_fresh [OF fresh, of L C ?u] by (simp add: row)
  have reg: "register L C E req d = (?d2, Inr ?res)"
    using ne cr ct by (simp add: register_def Let_def)
  have none: "filter (\<lambda>r. rt_userId r = userOid E) (refreshTokens d) = []"
    using assms(6) by (simp add: filter_empty_conv)
  have tok: "tokens_of (userOid E) ?d2 = [?row]"
    using none by (simp add: tokens_of_def)
  have ck: "cookies ?res =
               [\<lparr>ck_name = ''refreshToken'', ck_value = uuid E, ck_httpOnly = True,
                 ck_sameSite = (if isProduction C then ''none'' else ''lax''),
                 ck_secure = isProduction C,
                 ck_maxAge = Some (int (REFRESH_TOKEN_TTL C) * 1000)\<rparr>,
                \<lparr>ck_name = ''accessToken'',
                 ck_value = jwt_sign L [''user''] (ACCESS_JWT_SECRET C) (ACCESS_TOKEN_TTL C)
                              (userOid E) (now E),
                 ck_httpOnly = True,
                 ck_sameSite = (if isProduction C then ''none'' else ''lax''),
                 ck_secure = isProduction C, ck_maxAge = None\<rparr>]"
    by (simp add: send_json_def setAuthCookies_def cookieOptions_def new_response_def)
  have "\<forall>x \<in> set (refreshTokens d). rt_token x \<noteq> rt_token ?row"
    using assms(6) by simp
  from findOne_first [OF this, of L ?d1]
  have found: "RefreshToken_findOne L (JStr (uuid E)) ?d2 = Inr (Some ?row)"
    by simp
  have usr: "User_findById (rt_userId ?row) ?d2 = Some ?u"
  proof -
    have "find (\<lambda>x. u_id x = userOid E) (users d) = None"
      using assms(5) by (simp add: find_None_iff)
    then show ?thesis
      by (simp add: User_findById_def find_append_None)
  qed
  have usable: "\<forall>E' req'. cookie_refreshToken req' = Some (JStr (uuid E)) \<and>
                 (\<forall>x \<in> set (refreshTokens ?d2). rt_token x \<noteq> uuid E' \<and> rt_id x \<noteq> tokenOid E') \<longrightarrow>
                 (\<exists>d'' res'. refresh L C E' req' ?d2 = (d'', Inr res') \<and> statusCode res' = 200)"
  proof (intro allI impI)
    fix E' :: entropy and req' :: request
    assume a: "cookie_refreshToken req' = Some (JStr (uuid E)) \<and>
                 (\<forall>x \<in> set (refreshTokens ?d2). rt_token x \<noteq> uuid E' \<and> rt_id x \<noteq> tokenOid E')"
    then have c: "cookie_refreshToken req' = Some (JStr (uuid E))"
      and f: "\<forall>x \<in> set (refreshTokens ?d2). rt_token x \<noteq> uuid E' \<and> rt_id x \<noteq> tokenOid E'"
      by blast+
    from refresh_found [OF assms(4) c found usr f, of C]
    show "\<exists>d'' res'. refresh L C E' req' ?d2 = (d'', Inr res') \<and> statusCode res' = 200"
      by (simp add: setAuthCookies_def new_response_def)
  qed
  have st: "statusCode ?res = 201" "body ?res = Some (Message ''Registered'')"
    by (simp_all add: send_json_def setAuthCookies_def new_response_def)
  have us: "users ?d2 = users d @ [?u]" "refreshTokens ?d2 = refreshTokens d @ [?row]"
    by simp_all
  from reg st us tok ck found usable show ?thesis
    by blast
qed

theorem register_issues_session_witness:
  "\<exists>d' res. register demo_lib demo_config (draw 0 ''r2'' 2 11)
        (request_with ''grace@x.org'' ''pw2'' None None) demo_db = (d', Inr res)
     \<and> statusCode res = 201
     \<and> refreshTokens d' =
         [ada_row, \<lparr>rt_id = 11, rt_token = ''r2'', rt_userId = 2, rt_expireAt = 604800000\<rparr>]
     \<and> tokens_of 2 d' = [\<lparr>rt_id = 11, rt_token = ''r2'', rt_userId = 2, rt_expireAt = 604800000\<rparr>]
     \<and> map ck_value (cookies res) = [''r2'', ''signed'']"
proof -
  let ?E = "draw 0 ''r2'' 2 11"
  let ?req = "request_with ''grace@x.org'' ''pw2'' None None"
  have v: "body_firstName ?req \<noteq> []" "body_lastName ?req \<noteq> []" "body_email ?req \<noteq> []"
    "uuid ?E \<noteq> []"
    by (simp_all add: request_with_def draw_def)
  have 1: "\<forall>u \<in> set (users demo_db). u_email u \<noteq> body_email ?req \<and> u_id u \<noteq> userOid ?E"
    by (simp add: demo_db_def ada_def request_with_def draw_def)
  have 2: "\<forall>r \<in> set (refreshTokens demo_db).
             rt_token r \<noteq> uuid ?E \<and> rt_id r \<noteq> tokenOid ?E \<and> rt_userId r \<noteq> userOid ?E"
    by (simp add: demo_db_def ada_row_def draw_def)
  have 3: "refreshTokens demo_db = [ada_row]" "userOid ?E = 2" "uuid ?E = ''r2''" "now ?E = 0"
    "tokenOid ?E = 11" "REFRESH_TOKEN_TTL demo_config = 604800"
    "jwt_sign demo_lib = (\<lambda>rs secret ttl subj t. ''signed'')"
    by (simp_all add: demo_db_def draw_def demo_lib_def demo_config_def)
  from register_issues_session [OF v 1 2, of demo_lib demo_config]
  obtain d' res where r: "register demo_lib demo_config ?E ?req demo_db = (d', Inr res)"
    and s: "statusCode res = 201"
    and t: "refreshTokens d' = refreshTokens demo_db @
               [\<lparr>rt_id = tokenOid ?E, rt_token = uuid ?E, rt_userId = userOid ?E,
                 rt_expireAt = now ?E + int (REFRESH_TOKEN_TTL demo_config) * 1000\<rparr>]"
    and o: "tokens_of (userOid ?E) d' =
               [\<lparr>rt_id = tokenOid ?E, rt_token = uuid ?E, rt_userId = userOid ?E,
                 rt_expireAt = now ?E + int (REFRESH_TOKEN_TTL demo_config) * 1000\<rparr>]"
    and c: "cookies res =
               [\<lparr>ck_name = ''refreshToken'', ck_value = uuid ?E, ck_httpOnly = True,
                 ck_sameSite = (if isProduction demo_config then ''none'' else ''lax''),
                 ck_secure = isProduction demo_config,
                 ck_maxAge = Some (int (REFRESH_TOKEN_TTL demo_config) * 1000)\<rparr>,
                \<lparr>ck_name = ''accessToken'',
                 ck_value = jwt_sign demo_lib [''user''] (ACCESS_JWT_SECRET demo_config)
                              (ACCESS_TOKEN_TTL demo_config) (userOid ?E) (now ?E),
                 ck_httpOnly = True,
                 ck_sameSite = (if isProduction demo_config then ''none'' else ''lax''),
                 ck_secure = isProduction demo_config, ck_maxAge = None\<rparr>]"
    by blast
  have t': "refreshTokens d' =
         [ada_row, \<lparr>rt_id = 11, rt_token = ''r2'', rt_userId = 2, rt_expireAt = 604800000\<rparr>]"
    using t by (simp add: 3)
  have o': "tokens_of 2 d' = [\<lparr>rt_id = 11, rt_token = ''r2'', rt_userId = 2, rt_expireAt = 604800000\<rparr>]"
    using o by (simp add: 3)
  have c': "map ck_value (cookies res) = [''r2'', ''signed'']"
    by (simp add: c 3)
  show ?thesis
    by (rule exI [of _ d'], rule exI [of _ res]) (simp add: r s t' o' c')
qed

section \<open>The unique indexes are maintained\<close>

lemma distinct_map_deleteFirst:
  "distinct (map f xs) \<Longrightarrow> distinct (map f (deleteFirst P xs))"
  by (induction xs) (auto simp: image_iff dest: in_set_deleteFirst)

lemma unique_indexes_delete:
  "unique_indexes d \<Longrightarrow>
   unique_indexes (d\<lparr>refreshTokens := deleteFirst P (refreshTokens d)\<rparr>)"
  by (simp add: unique_indexes_def distinct_map_deleteFirst)

lemma unique_indexes_filter:
  "unique_indexes d \<Longrightarrow>
   unique_indexes (d\<lparr>refreshTokens := filter P (refreshTokens d)\<rparr>)"
  by (simp add: unique_indexes_def distinct_map_filter)

lemma unique_indexes_users:
  "unique_indexes (d\<lparr>users := us\<rparr>) = unique_indexes d"
  by (simp add: unique_indexes_def)

lemma unique_indexes_createTokens:
  "unique_indexes d \<Longrightarrow> unique_indexes (fst (createTokens L C E u d))"
  by (auto simp: createTokens_def RefreshToken_create_def unique_indexes_def Let_def
        issued_row_simps image_iff)

lemma unique_indexes_dispatch:
  assumes "unique_indexes d"
  shows "unique_indexes (fst (dispatch L C ep E req d))"
proof (cases ep)
  case PostRegister
  let ?u = "\<lparr>u_id = userOid E, u_firstName = body_firstName req,
             u_lastName = body_lastName req, u_email = body_email req,
             u_password = bcrypt_hash L (body_password req) (salt E), u_roles = [''user'']\<rparr>"
  have "unique_indexes (fst (createTokens L C E ?u (d\<lparr>users := users d @ [?u]\<rparr>)))"
    by (rule unique_indexes_createTokens) (simp add: unique_indexes_users assms)
  then show ?thesis
    using assms unfolding PostRegister
    by (auto simp: register_def User_create_def Let_def split: prod.splits sum.splits)
next
  case PostLogin
  have "\<And>u. unique_indexes (fst (createTokens L C E u (RefreshToken_deleteMany (u_id u) d)))"
    by (rule unique_indexes_createTokens)
       (simp add: RefreshToken_deleteMany_def unique_indexes_filter assms)
  then have "\<And>u d2 out. createTokens L C E u (RefreshToken_deleteMany (u_id u) d) = (d2, out)
               \<Longrightarrow> unique_indexes d2"
    by (metis fst_conv)
  then show ?thesis
    using assms unfolding PostLogin
    by (auto simp: login_def Let_def split: option.splits prod.splits sum.splits)
next
  case PostRefresh
  have "\<And>u i. unique_indexes (fst (createTokens L C E u (RefreshToken_findByIdAndDelete i d)))"
    by (rule unique_indexes_createTokens)
       (simp add: RefreshToken_findByIdAndDelete_def unique_indexes_delete assms)
  moreover have "\<And>i. unique_indexes (RefreshToken_findByIdAndDelete i d)"
    by (simp add: RefreshToken_findByIdAndDelete_def unique_indexes_delete assms)
  ultimately have "\<And>u i d2 out. createTokens L C E u (RefreshToken_findByIdAndDelete i d) = (d2, out)
               \<Longrightarrow> unique_indexes d2"
    and "\<And>i. unique_indexes (RefreshToken_findByIdAndDelete i d)"
    by (metis fst_conv)+
  then show ?thesis
    using assms unfolding PostRefresh
    by (auto simp: refresh_unfold Let_def split: option.splits prod.splits sum.splits)
next
  case PostLogout
  show ?thesis
    using assms unfolding PostLogout
    by (auto simp: logout_def Let_def RefreshToken_deleteOne_def unique_indexes_delete
          split: option.splits sum.splits if_splits)
next
  case GetMe
  show ?thesis
    using assms unfolding GetMe
    by (auto simp: me_def split: sum.splits caught.splits)
qed

text \<open>
  From a database whose unique indexes hold, as the empty one's do, every
  sequence of requests and TTL passes leads to one whose unique indexes hold.
\<close>

lemma unique_indexes_serve:
  "unique_indexes d \<Longrightarrow> unique_indexes (serve L C evs d)"
proof (induction evs arbitrary: d)
  case Nil
  then show ?case by simp
next
  case (Cons ev evs)
  show ?case
  proof (cases ev)
    case (Request ep E req)
    from Cons.IH [OF unique_indexes_dispatch [OF Cons.prems]] show ?thesis
      by (simp add: Request)
  next
    case (TtlPass t)
    have "unique_indexes (ttl_sweep t d)"
      using Cons.prems by (simp add: ttl_sweep_def unique_indexes_filter)
    from Cons.IH [OF this] show ?thesis
      by (simp add: TtlPass)
  qed
qed

lemma unique_indexes_empty: "unique_indexes \<lparr>users = [], refreshTokens = []\<rparr>"
  by (simp add: unique_indexes_def)

section \<open>Rotation\<close>













section \<open>Login invalidates the user's earlier sessions\<close>

lemma unique_token_row:
  assumes "unique_indexes d" and "x \<in> set (refreshTokens d)" and "r \<in> set (refreshTokens d)"
      and "rt_token x = rt_token r"
  shows "x = r"
proof -
  from assms(1) have "inj_on rt_token (set (refreshTokens d))"
    by (simp add: unique_indexes_def distinct_map)
  from inj_onD [OF this assms(4,2,3)] show ?thesis .
qed





section \<open>Expiry of refresh tokens\<close>

text \<open>
  Claim C5, as the code has it. Take a stored RefreshToken document, in a
  database whose unique indexes hold, and a refresh call whose cookie is the
  document's token, a non-empty string. Whatever the document's expireAt and
  whatever the clock shows, findOne finds the document, and the handler treats
  it as live: if the document's user exists (and the new token and ObjectId are
  not in use), the call is answered 200 with a new session; if the user is
  gone, it throws the 403 error "User not found.". Expiry acts through removal
  only: once a TTL pass at or after expireAt has removed the document, the call
  throws the 403 error "Refresh token not found.".
\<close>

theorem stored_token_honoured_until_removed:
  assumes "unique_indexes d"
      and "r \<in> set (refreshTokens d)" and "rt_token r \<noteq> []"
      and "cookie_refreshToken req = Some (JStr (rt_token r))"
      and "\<forall>x \<in> set (refreshTokens d). rt_token x \<noteq> uuid E \<and> rt_id x \<noteq> tokenOid E"
  shows "RefreshToken_findOne L (JStr (rt_token r)) d = Inr (Some r)
         \<and> (\<forall>u. User_findById (rt_userId r) d = Some u \<longrightarrow>
              (\<exists>d' res. refresh L C E req d = (d', Inr res) \<and> statusCode res = 200 \<and>
                 \<lparr>rt_id = tokenOid E, rt_token = uuid E, rt_userId = u_id u,
                  rt_expireAt = now E + int (REFRESH_TOKEN_TTL C) * 1000\<rparr> \<in> set (refreshTokens d') \<and>
                 map (\<lambda>c. (ck_name c, ck_value c)) (cookies res) =
                   [(''refreshToken'', uuid E),
                    (''accessToken'', jwt_sign L (u_roles u) (ACCESS_JWT_SECRET C)
                                        (ACCESS_TOKEN_TTL C) (u_id u) (now E))]))
         \<and> (User_findById (rt_userId r) d = None \<longrightarrow>
              refresh L C E req d =
                (RefreshToken_findByIdAndDelete (rt_id r) d,
                 Inl (Error ''User not found.'' (Some (http 403)))))
         \<and> (\<forall>t. rt_expireAt r \<le> t \<longrightarrow>
               refresh L C E req (ttl_sweep t d) =
                 (ttl_sweep t d, Inl (Error ''Refresh token not found.'' (Some (http 403)))))"
proof (intro conjI allI impI)
  have "RefreshToken_findOne L (JStr (rt_token r)) d \<noteq> Inr None"
    using assms(2) by (simp add: findOne_None_iff)
  then obtain x where x: "RefreshToken_findOne L (JStr (rt_token r)) d = Inr (Some x)"
    by (auto simp: findOne_JStr)
  from findOne_SomeD [OF x] have xin: "x \<in> set (refreshTokens d)" and xt: "rt_token x = rt_token r"
    by simp_all
  have "x = r"
    by (rule unique_token_row [OF assms(1) xin assms(2) xt])
  with x show f: "RefreshToken_findOne L (JStr (rt_token r)) d = Inr (Some r)" by simp
  show "\<exists>d' res. refresh L C E req d = (d', Inr res) \<and> statusCode res = 200 \<and>
                 \<lparr>rt_id = tokenOid E, rt_token = uuid E, rt_userId = u_id u,
                  rt_expireAt = now E + int (REFRESH_TOKEN_TTL C) * 1000\<rparr> \<in> set (refreshTokens d') \<and>
                 map (\<lambda>c. (ck_name c, ck_value c)) (cookies res) =
                   [(''refreshToken'', uuid E),
                    (''accessToken'', jwt_sign L (u_roles u) (ACCESS_JWT_SECRET C)
                                        (ACCESS_TOKEN_TTL C) (u_id u) (now E))]"
    if u: "User_findById (rt_userId r) d = Some u" for u
    using refresh_found [OF assms(3,4) f u assms(5), of C]
    by (simp add: setAuthCookies_def cookieOptions_def new_response_def issued_row_def)
  show "refresh L C E req d =
                (RefreshToken_findByIdAndDelete (rt_id r) d,
                 Inl (Error ''User not found.'' (Some (http 403))))"
    if "User_findById (rt_userId r) d = None"
    using that assms(3,4) f
    by (simp add: refresh_unfold Let_def findById_after_delete)
  fix t
  assume "rt_expireAt r \<le> t"
  have "rt_token r \<notin> rt_token ` set (refreshTokens (ttl_sweep t d))"
  proof
    assume "rt_token r \<in> rt_token ` set (refreshTokens (ttl_sweep t d))"
    then obtain y where y: "y \<in> set (refreshTokens d)" "t < rt_expireAt y" "rt_token y = rt_token r"
      by (auto simp: ttl_sweep_def)
    from unique_token_row [OF assms(1) y(1) assms(2) y(3)] y(2) \<open>rt_expireAt r \<le> t\<close>
    show False by simp
  qed
  from refresh_absent [OF assms(3,4) this]
  show "refresh L C E req (ttl_sweep t d) =
          (ttl_sweep t d, Inl (Error ''Refresh token not found.'' (Some (http 403))))" .
qed

text \<open>
  The claim as stated fails: a document whose expireAt (5000) lies before the
  clock (9000) and which no TTL pass has removed yet is found, and the refresh
  call that presents its value succeeds.
\<close>

theorem expired_token_honoured_counterexample:
  "rt_expireAt ada_row < now (draw 9000 ''r2'' 2 11)
   \<and> ada_row \<in> set (refreshTokens demo_db)
   \<and> RefreshToken_findOne demo_lib (JStr ''r1'') demo_db = Inr (Some ada_row)
   \<and> refresh demo_lib demo_config (draw 9000 ''r2'' 2 11)
        (request_with [] [] (Some ''r1'') None) demo_db
     = (demo_db\<lparr>refreshTokens := [issued_row demo_config (draw 9000 ''r2'' 2 11) ''r2'' 1]\<rparr>,
        Inr ((setAuthCookies demo_config ''r2'' ''signed'' new_response)
               \<lparr>body := Some (Message ''Refreshed'')\<rparr>))
   \<and> statusCode (respond (snd (refresh demo_lib demo_config (draw 9000 ''r2'' 2 11)
        (request_with [] [] (Some ''r1'') None) demo_db))) = 200"
proof -
  have r: "refresh demo_lib demo_config (draw 9000 ''r2'' 2 11)
        (request_with [] [] (Some ''r1'') None) demo_db
     = (demo_db\<lparr>refreshTokens := [issued_row demo_config (draw 9000 ''r2'' 2 11) ''r2'' 1]\<rparr>,
        Inr ((setAuthCookies demo_config ''r2'' ''signed'' new_response)
               \<lparr>body := Some (Message ''Refreshed'')\<rparr>))"
    by (simp add: refresh_unfold request_with_def demo_db_def findOne_JStr ada_row_def
        RefreshToken_findByIdAndDelete_def User_findById_def ada_def createTokens_def
        RefreshToken_create_def draw_def Let_def demo_lib_def)
  have 1: "rt_expireAt ada_row < now (draw 9000 ''r2'' 2 11)"
    by (simp add: ada_row_def draw_def)
  have 2: "ada_row \<in> set (refreshTokens demo_db)" by (simp add: demo_db_def)
  have 3: "RefreshToken_findOne demo_lib (JStr ''r1'') demo_db = Inr (Some ada_row)"
    by (simp add: findOne_JStr demo_db_def ada_row_def)
  have 4: "statusCode (respond (snd (refresh demo_lib demo_config (draw 9000 ''r2'' 2 11)
        (request_with [] [] (Some ''r1'') None) demo_db))) = 200"
    unfolding r by (simp add: respond_def setAuthCookies_def new_response_def)
  from 1 2 3 r 4 show ?thesis by (intro conjI)
qed

theorem stored_token_honoured_until_removed_witness:
  "RefreshToken_findOne demo_lib (JStr ''r1'') demo_db = Inr (Some ada_row)
   \<and> (\<exists>d' res. refresh demo_lib demo_config (draw 9000 ''r2'' 2 11)
          (request_with [] [] (Some ''r1'') None) demo_db = (d', Inr res) \<and> statusCode res = 200)
   \<and> refresh demo_lib demo_config (draw 9000 ''r2'' 2 11)
          (request_with [] [] (Some ''r1'') None) (ttl_sweep 5000 demo_db)
       = (ttl_sweep 5000 demo_db, Inl (Error ''Refresh token not found.'' (Some (http 403))))"
proof -
  have 1: "unique_indexes demo_db"
    by (simp add: unique_indexes_def demo_db_def)
  have 2: "ada_row \<in> set (refreshTokens demo_db)" by (simp add: demo_db_def)
  have 3: "rt_token ada_row \<noteq> []" by (simp add: ada_row_def)
  have 4: "cookie_refreshToken (request_with [] [] (Some ''r1'') None) = Some (JStr (rt_token ada_row))"
    by (simp add: request_with_def ada_row_def)
  have 5: "User_findById (rt_userId ada_row) demo_db = Some ada"
    by (simp add: User_findById_def demo_db_def ada_row_def ada_def)
  have 6: "\<forall>x \<in> set (refreshTokens demo_db).
             rt_token x \<noteq> uuid (draw 9000 ''r2'' 2 11) \<and> rt_id x \<noteq> tokenOid (draw 9000 ''r2'' 2 11)"
    by (simp add: demo_db_def ada_row_def draw_def)
  have 7: "rt_token ada_row = ''r1''" "rt_expireAt ada_row \<le> 5000"
    by (simp_all add: ada_row_def)
  from stored_token_honoured_until_removed [OF 1 2 3 4 6, of demo_lib demo_config] 5 7(2)
  show ?thesis unfolding 7(1) by blast
qed

section \<open>Failed logins\<close>

text \<open>
  login throws the same error, and leaves the database alone, whether no user
  has the email or the password does not match.
\<close>

lemma login_failures_identical:
  assumes "User_findOne (body_email req1) d = None"
      and "User_findOne (body_email req2) d = Some u"
      and "\<not> bcrypt_compare L (body_password req2) (u_password u)"
  shows "login L C E1 req1 d = (d, Inl (Error ''Incorrect credentials'' (Some (http 401))))
         \<and> login L C E2 req2 d = (d, Inl (Error ''Incorrect credentials'' (Some (http 401))))
         \<and> respond (snd (login L C E1 req1 d)) = respond (snd (login L C E2 req2 d))
         \<and> statusCode (respond (snd (login L C E1 req1 d))) = 401"
  using assms by (simp add: login_def respond_def statusCode_errorHandler_http)

text \<open>
  Claim C7. signIn, the login of the module11 variant, tells the two causes
  apart: for an email no user has it throws "User not found" with cause 404, for
  a stored email with a wrong password "Invalid email or password" with cause
  401.
\<close>

theorem signIn_reveals_unknown_email:
  "signIn demo_lib (\<lambda>i. ''signed'') (request11_with ''nobody@x.org'' ''pw'') [ada11]
     = Inl (Error11 ''User not found'' (Some 404))
   \<and> signIn demo_lib (\<lambda>i. ''signed'') (request11_with ''ada@x.org'' ''wrong'') [ada11]
     = Inl (Error11 ''Invalid email or password'' (Some 401))
   \<and> signIn demo_lib (\<lambda>i. ''signed'') (request11_with ''nobody@x.org'' ''pw'') [ada11]
     \<noteq> signIn demo_lib (\<lambda>i. ''signed'') (request11_with ''ada@x.org'' ''wrong'') [ada11]"
  by (simp add: signIn_def request11_with_def ada11_def demo_lib_def)

section \<open>signUp of the module11 variant\<close>

text \<open>
  signUp of the module11 variant rejects a stored email with the same message
  as register, but with the cause 400, and leaves its store as it was.
\<close>

lemma signUp_conflict:
  assumes "u \<in> set d" and "v_email u = sb_email req"
  shows "signUp L E req d = (d, Inl (Error11 ''Email already exists'' (Some 400)))"
proof -
  have "find (\<lambda>u. v_email u = sb_email req) d \<noteq> None"
    using assms by (auto simp: find_None_iff)
  then show ?thesis
    by (auto simp: signUp_def)
qed

text \<open>
  Claim C10. Take a sign-up whose fields and password hash are not empty, for
  an email no stored user has (and an ObjectId not in use). signUp stores the
  new user and answers 200; the body is the document that create returned,
  with every path: _id, firstName, lastName, email, the two timestamps, and
  password, whose value is the bcrypt hash. Since password is declared
  \<^verbatim>\<open>select: false\<close>, a query for the same stored user hands back all of these
  paths but password. The response sets no cookie and its body is the user
  document alone, so no token goes out, although the user is now stored.
\<close>

theorem signUp_returns_created_document:
  assumes "sb_firstName req \<noteq> []" and "sb_lastName req \<noteq> []" and "sb_email req \<noteq> []"
      and "bcrypt_hash L (sb_password req) (salt E) \<noteq> []"
      and "\<forall>u \<in> set d. v_email u \<noteq> sb_email req \<and> v_id u \<noteq> userOid E"
  shows "signUp L E req d =
           (d @ [\<lparr>v_id = userOid E, v_firstName = sb_firstName req,
                   v_lastName = sb_lastName req, v_email = sb_email req,
                   v_password = bcrypt_hash L (sb_password req) (salt E),
                   v_createdAt = now E, v_updatedAt = now E\<rparr>],
            Inr \<lparr>status11 = 200, cookies11 = [],
                 body11 = Some (UserBody
                   [(''_id'', JNum (of_nat (userOid E))),
                    (''firstName'', JStr (sb_firstName req)),
                    (''lastName'', JStr (sb_lastName req)),
                    (''email'', JStr (sb_email req)),
                    (''password'', JStr (bcrypt_hash L (sb_password req) (salt E))),
                    (''createdAt'', JNum (of_int (now E))),
                    (''updatedAt'', JNum (of_int (now E)))])\<rparr>)
         \<and> map_option (query_result [])
              (find (\<lambda>u. v_email u = sb_email req) (fst (signUp L E req d))) =
             Some [(''_id'', JNum (of_nat (userOid E))),
                   (''firstName'', JStr (sb_firstName req)),
                   (''lastName'', JStr (sb_lastName req)),
                   (''email'', JStr (sb_email req)),
                   (''createdAt'', JNum (of_int (now E))),
                   (''updatedAt'', JNum (of_int (now E)))]"
proof -
  let ?usr = "\<lparr>v_id = userOid E, v_firstName = sb_firstName req,
               v_lastName = sb_lastName req, v_email = sb_email req,
               v_password = bcrypt_hash L (sb_password req) (salt E),
               v_createdAt = now E, v_updatedAt = now E\<rparr>"
  have f: "find (\<lambda>u. v_email u = sb_email req) d = None"
    using assms(5) by (simp add: find_None_iff)
  have c: "User11_create ?usr d = Inr (d @ [?usr], ?usr)"
    using assms by (auto simp: User11_create_def)
  have s: "signUp L E req d =
           (d @ [?usr], Inr \<lparr>status11 = 200, cookies11 = [],
                             body11 = Some (UserBody (toObject ?usr))\<rparr>)"
    by (simp add: signUp_def Let_def f c)
  have q: "find (\<lambda>u. v_email u = sb_email req) (d @ [?usr]) = Some ?usr"
    using f by (simp add: find_append_None)
  show ?thesis
    by (simp add: s q toObject_def query_result_def unselected_def)
qed

theorem signUp_returns_created_document_witness:
  "signUp demo_lib (draw 7 ''r2'' 2 11) (request11_with ''grace@x.org'' ''pw2'') [ada11] =
     ([ada11,
       \<lparr>v_id = 2, v_firstName = ''Grace'', v_lastName = ''Hopper'', v_email = ''grace@x.org'',
        v_password = ''$2b$pw2'', v_createdAt = 7, v_updatedAt = 7\<rparr>],
      Inr \<lparr>status11 = 200, cookies11 = [],
           body11 = Some (UserBody
             [(''_id'', JNum 2), (''firstName'', JStr ''Grace''), (''lastName'', JStr ''Hopper''),
              (''email'', JStr ''grace@x.org''), (''password'', JStr ''$2b$pw2''),
              (''createdAt'', JNum 7), (''updatedAt'', JNum 7)])\<rparr>)"
proof -
  let ?E = "draw 7 ''r2'' 2 11"
  let ?req = "request11_with ''grace@x.org'' ''pw2''"
  have v: "sb_firstName ?req \<noteq> []" "sb_lastName ?req \<noteq> []" "sb_email ?req \<noteq> []"
    "bcrypt_hash demo_lib (sb_password ?req) (salt ?E) \<noteq> []"
    by (simp_all add: request11_with_def demo_lib_def draw_def)
  have 1: "\<forall>u \<in> set [ada11]. v_email u \<noteq> sb_email ?req \<and> v_id u \<noteq> userOid ?E"
    by (simp add: ada11_def request11_with_def draw_def)
  have 2: "bcrypt_hash demo_lib (sb_password ?req) (salt ?E) = ''$2b$pw2''"
    "sb_firstName ?req = ''Grace''" "sb_lastName ?req = ''Hopper''" "sb_email ?req = ''grace@x.org''"
    "userOid ?E = 2" "now ?E = 7"
    by (simp_all add: demo_lib_def request11_with_def draw_def)
  from signUp_returns_created_document [OF v 1, THEN conjunct1]
  show ?thesis unfolding 2 by simp
qed

section \<open>Two refresh calls with the same value\<close>

text \<open>Run alone, the four steps of a task are the refresh handler.\<close>

lemma refresh_steps_sequential:
  "interleave L C E E2 [True, True, True, True] (AtFindOne req, t2, d) =
     (Finished (snd (refresh L C E req d)), t2, fst (refresh L C E req d))"
  by (simp add: refresh_unfold Let_def findById_after_delete
        split: option.splits prod.splits sum.splits)









end
